theory Spec2Isabelle
  imports Complex_Main "HOL-Library.Sublist" "HOL-Library.Signed_Division"
begin

section \<open>Values and collaborators\<close>

text \<open>
  The package \<^verbatim>\<open>gin_logrus\<close> (file \<^verbatim>\<open>logging.go\<close>) has two gin middlewares,
  \<^verbatim>\<open>GinLogrus\<close> and \<^verbatim>\<open>RecoveryWithLoggerMiddleware\<close>, and the routine
  \<^verbatim>\<open>generateLogFields\<close> that both call. Everything they touch besides their own
  control flow belongs to libraries: gin's \<^verbatim>\<open>Context\<close>, net/http's \<^verbatim>\<open>Request\<close>,
  net/url's \<^verbatim>\<open>URL\<close>, the \<^verbatim>\<open>time\<close> package, logrus and OpenTelemetry. This
  section models the part of each library that the three functions read or call.
\<close>

subsection \<open>Go values of static type interface\<close>

text \<open>
  \<^verbatim>\<open>logrus.Fields\<close> is \<^verbatim>\<open>map[string]interface{}\<close>, gin's request-scoped store is
  \<^verbatim>\<open>map[string]any\<close>, and \<^verbatim>\<open>recover()\<close> returns \<^verbatim>\<open>interface{}\<close>. The dynamic
  values that occur are: the nil interface, strings, integers (\<^verbatim>\<open>int\<close>, \<^verbatim>\<open>int64\<close>),
  \<^verbatim>\<open>float64\<close> (as a real number; rounding is not modelled), \<^verbatim>\<open>error\<close> values
  (by their message), maps of dynamic type \<^verbatim>\<open>map[string]interface{}\<close>, and values
  of the struct type \<^verbatim>\<open>models.UserContext\<close>, whose identifiers are of type
  \<^verbatim>\<open>uuid.UUID\<close>, an array of 16 bytes.
\<close>

record UserContext =
  Email :: string
  UserID :: string
  OrganisationID :: string
  TenantID :: string

datatype any =
    ANil
  | AString string
  | AInt int
  | AFloat real
  | AError string
  | AMap "string \<Rightarrow> any option"
  | AUserContext UserContext

type_synonym Fields = "string \<rightharpoonup> any"

subsection \<open>Decimal rendering\<close>

definition digit :: "nat \<Rightarrow> char" where
  "digit n = ''0123456789'' ! (n mod 10)"

fun utod :: "nat \<Rightarrow> string" where
  "utod n = (if n < 10 then [digit n] else utod (n div 10) @ [digit n])"

declare utod.simps [simp del]

text \<open>
  \<^verbatim>\<open>appendInt(b, x, width)\<close> of package time: the decimal form of \<^verbatim>\<open>x\<close>, padded
  with zeros on the left to at least \<^verbatim>\<open>width\<close> digits, after a minus sign when
  \<^verbatim>\<open>x\<close> is negative.
\<close>

definition appendInt :: "int \<Rightarrow> nat \<Rightarrow> string" where
  "appendInt x width =
     (let u = utod (nat \<bar>x\<bar>)
      in (if x < 0 then ''-'' else '''') @ replicate (width - length u) (CHR ''0'') @ u)"

subsection \<open>Package time\<close>

text \<open>
  A \<^verbatim>\<open>time.Time\<close> returned by \<^verbatim>\<open>time.Now()\<close> carries a wall clock reading, a
  monotonic clock reading and the local \<^verbatim>\<open>Location\<close>. \<open>wall\<close> is the wall clock in
  nanoseconds since the Unix epoch, \<open>mono\<close> the monotonic clock in nanoseconds, and
  \<open>zone\<close> the offset of the location at that instant, in seconds east of UTC.
\<close>

record Time =
  wall :: int
  mono :: int
  zone :: int

type_synonym Duration = int

definition Second :: Duration where
  "Second = 1000000000"

definition maxDuration :: Duration where
  "maxDuration = 2 ^ 63 - 1"

definition minDuration :: Duration where
  "minDuration = - (2 ^ 63)"

text \<open>
  \<^verbatim>\<open>subMono(t, u)\<close>: the difference of two monotonic readings as an \<^verbatim>\<open>int64\<close>
  duration, saturating at the ends of the range instead of wrapping around.
\<close>

definition subMono :: "int \<Rightarrow> int \<Rightarrow> Duration" where
  "subMono t u =
     (let d = t - u
      in if maxDuration < d then maxDuration
         else if d < minDuration then minDuration
         else d)"

text \<open>
  \<^verbatim>\<open>Duration.Seconds()\<close>: whole seconds plus the remaining nanoseconds over \<^verbatim>\<open>1e9\<close>.
  Go's \<^verbatim>\<open>/\<close> and \<^verbatim>\<open>%\<close> on integers truncate towards zero.
\<close>

definition Seconds :: "Duration \<Rightarrow> real" where
  "Seconds d =
     (let sec = d sdiv Second;
          nsec = d smod Second
      in real_of_int sec + real_of_int nsec / 1000000000)"

text \<open>
  The civil date of a day number (days since 1970-01-01) in the proleptic Gregorian
  calendar, which is the calendar of \<^verbatim>\<open>Time.Date\<close>: year, month (1 to 12), day.
\<close>

definition civil :: "int \<Rightarrow> int \<times> int \<times> int" where
  "civil days =
     (let z = days + 719468;
          era = z div 146097;
          doe = z mod 146097;
          yoe = (doe - doe div 1460 + doe div 36524 - doe div 146096) div 365;
          doy = doe - (365 * yoe + yoe div 4 - yoe div 100);
          mp = (5 * doy + 2) div 153;
          d = doy - (153 * mp + 2) div 5 + 1;
          m = (if mp < 10 then mp + 3 else mp - 9);
          y = yoe + era * 400 + (if m \<le> 2 then 1 else 0)
      in (y, m, d))"

text \<open>
  \<^verbatim>\<open>t.Format("2006-01-02T15:04:05.000Z")\<close>. The layout has the elements year (four
  digits), month, day, hour, minute and second (two digits each) and \<^verbatim>\<open>.000\<close>
  (milliseconds, truncated); \<^verbatim>\<open>-\<close>, \<^verbatim>\<open>T\<close>, \<^verbatim>\<open>:\<close> and the final \<^verbatim>\<open>Z\<close> are literal
  text (a zone element would be \<^verbatim>\<open>Z07:00\<close> or \<^verbatim>\<open>Z0700\<close>). \<^verbatim>\<open>Format\<close> renders the
  time in the location the \<^verbatim>\<open>Time\<close> value carries: the clock fields are those of
  \<open>wall\<close> shifted by \<open>zone\<close>.
\<close>

definition Format :: "Time \<Rightarrow> string" where
  "Format t =
     (let sec = wall t div 1000000000 + zone t;
          nsec = wall t mod 1000000000;
          (year, month, day) = civil (sec div 86400);
          rem = sec mod 86400;
          hour = rem div 3600;
          minute = (rem mod 3600) div 60;
          second = rem mod 60
      in appendInt year 4 @ ''-'' @ appendInt month 2 @ ''-'' @ appendInt day 2 @ ''T''
         @ appendInt hour 2 @ '':'' @ appendInt minute 2 @ '':'' @ appendInt second 2
         @ ''.'' @ appendInt (nsec div 1000000) 3 @ ''Z'')"

text \<open>\<^verbatim>\<open>t.UTC()\<close>: the same instant with the location set to UTC.\<close>

definition UTC :: "Time \<Rightarrow> Time" where
  "UTC t = t\<lparr>zone := 0\<rparr>"

subsection \<open>Package net/url and net/http\<close>

text \<open>
  The fields of \<^verbatim>\<open>url.URL\<close> that the code reads. \<open>String_result\<close> is the value
  of the method \<^verbatim>\<open>URL.String()\<close>: net/url reassembles it from the components with
  its escaping rules, which are not modelled, so the result is carried as data.
\<close>

record URL =
  Scheme :: string
  URL_Host :: string
  Path :: string
  RawQuery :: string
  Fragment :: string
  String_result :: string

fun LastIndexByte :: "string \<Rightarrow> char \<Rightarrow> nat option" where
  "LastIndexByte [] c = None"
| "LastIndexByte (x # xs) c =
     (case LastIndexByte xs c of
        Some i \<Rightarrow> Some (Suc i)
      | None \<Rightarrow> if x = c then Some 0 else None)"

fun validOptionalPort :: "string \<Rightarrow> bool" where
  "validOptionalPort [] = True"
| "validOptionalPort (c # rest) = (c = CHR '':'' \<and> list_all (\<lambda>b. b \<in> set ''0123456789'') rest)"

definition HasPrefix :: "string \<Rightarrow> string \<Rightarrow> bool" where
  "HasPrefix s p = (take (length p) s = p)"

definition HasSuffix :: "string \<Rightarrow> string \<Rightarrow> bool" where
  "HasSuffix s p = (length p \<le> length s \<and> drop (length s - length p) s = p)"

text \<open>
  \<^verbatim>\<open>splitHostPort\<close> of net/url: a trailing \<^verbatim>\<open>:port\<close> of digits is split off, then
  the square brackets of an IPv6 literal are removed.
\<close>

definition splitHostPort :: "string \<Rightarrow> string \<times> string" where
  "splitHostPort hostPort =
     (let (host, port) =
            (case LastIndexByte hostPort (CHR '':'') of
               None \<Rightarrow> (hostPort, '''')
             | Some colon \<Rightarrow>
                 if validOptionalPort (drop colon hostPort)
                 then (take colon hostPort, drop (colon + 1) hostPort)
                 else (hostPort, ''''));
          host' = (if HasPrefix host ''['' \<and> HasSuffix host '']''
                   then take (length host - 2) (drop 1 host) else host)
      in (host', port))"

definition Hostname :: "URL \<Rightarrow> string" where
  "Hostname u = fst (splitHostPort (URL_Host u))"

definition Port :: "URL \<Rightarrow> string" where
  "Port u = snd (splitHostPort (URL_Host u))"

text \<open>
  \<^verbatim>\<open>http.Header\<close> maps a canonical header name to its values;
  \<^verbatim>\<open>Header.Get\<close> returns the first value, or the empty string.
\<close>

type_synonym Header = "string \<rightharpoonup> string list"

definition Header_Get :: "Header \<Rightarrow> string \<Rightarrow> string" where
  "Header_Get h key =
     (case h key of
        None \<Rightarrow> ''''
      | Some [] \<Rightarrow> ''''
      | Some (v # _) \<Rightarrow> v)"

text \<open>
  \<^verbatim>\<open>http.Request\<close>. \<open>span_valid\<close> stands for the request's \<^verbatim>\<open>context.Context\<close>:
  whether \<^verbatim>\<open>trace.SpanFromContext\<close> finds there a span whose \<^verbatim>\<open>SpanContext\<close> is
  valid.
\<close>

record Request =
  Method :: string
  Url :: URL
  Proto :: string
  Headers :: Header
  ContentLength :: int
  Host :: string
  span_valid :: bool

definition Referer :: "Request \<Rightarrow> string" where
  "Referer r = Header_Get (Headers r) ''Referer''"

definition UserAgent :: "Request \<Rightarrow> string" where
  "UserAgent r = Header_Get (Headers r) ''User-Agent''"

subsection \<open>Package gin\<close>

text \<open>
  gin's \<^verbatim>\<open>responseWriter\<close> keeps the status code and the number of body bytes
  written; the size is \<^verbatim>\<open>noWritten\<close> until the header has been written.
\<close>

record responseWriter =
  w_size :: int
  w_status :: int

definition noWritten :: int where
  "noWritten = -1"

definition Written :: "responseWriter \<Rightarrow> bool" where
  "Written w = (w_size w \<noteq> noWritten)"

text \<open>
  \<^verbatim>\<open>WriteHeader\<close> records a new status code only while nothing has been written
  (releases of gin before 1.9 warn and record it all the same; what is proved below
  about the status is about a response that has not been written, where the two
  agree); \<^verbatim>\<open>WriteHeaderNow\<close> sends the header if it has not been sent, which sets
  the size to zero. \<^verbatim>\<open>AbortWithStatus\<close> calls both and marks the context aborted.
\<close>

definition WriteHeader :: "int \<Rightarrow> responseWriter \<Rightarrow> responseWriter" where
  "WriteHeader code w =
     (if code > 0 \<and> w_status w \<noteq> code
      then (if Written w then w else w\<lparr>w_status := code\<rparr>)
      else w)"

definition WriteHeaderNow :: "responseWriter \<Rightarrow> responseWriter" where
  "WriteHeaderNow w = (if \<not> Written w then w\<lparr>w_size := 0\<rparr> else w)"

text \<open>
  An entry of \<^verbatim>\<open>c.Errors\<close>: the message of the wrapped error and, when the
  metadata is not nil, its rendering with \<^verbatim>\<open>%v\<close>.
\<close>

record gin_Error =
  Err :: string
  Meta :: "string option"

text \<open>
  \<^verbatim>\<open>gin.Context\<close>. \<open>ClientIP_result\<close> is the value of the method
  \<^verbatim>\<open>c.ClientIP()\<close>, which gin computes from the remote address and the forwarding
  headers under the engine's proxy configuration; it is carried as data.
\<close>

record Context =
  Request :: Request
  Writer :: responseWriter
  Keys :: "string \<rightharpoonup> any"
  Errors :: "gin_Error list"
  aborted :: bool
  ClientIP_result :: string

definition filterFlags :: "string \<Rightarrow> string" where
  "filterFlags content = takeWhile (\<lambda>ch. ch \<noteq> CHR '' '' \<and> ch \<noteq> CHR '';'') content"

definition ContentType :: "Context \<Rightarrow> string" where
  "ContentType c = filterFlags (Header_Get (Headers (Request c)) ''Content-Type'')"

definition AbortWithStatus :: "int \<Rightarrow> Context \<Rightarrow> Context" where
  "AbortWithStatus code c =
     (let c1 = c\<lparr>Writer := WriteHeader code (Writer c)\<rparr>;
          c2 = c1\<lparr>Writer := WriteHeaderNow (Writer c1)\<rparr>
      in c2\<lparr>aborted := True\<rparr>)"

definition newline :: char where
  "newline = CHR 0x0A"

text \<open>
  \<^verbatim>\<open>c.Errors.String()\<close>: one line \<^verbatim>\<open>Error #NN: message\<close> for each recorded error,
  numbered from 1 with at least two digits, followed by a line for its metadata if
  it has any.
\<close>

fun errors_lines :: "nat \<Rightarrow> gin_Error list \<Rightarrow> string" where
  "errors_lines i [] = ''''"
| "errors_lines i (msg # rest) =
     ''Error #'' @ appendInt (int (i + 1)) 2 @ '': '' @ Err msg @ [newline]
     @ (case Meta msg of None \<Rightarrow> '''' | Some m \<Rightarrow> ''     Meta: '' @ m @ [newline])
     @ errors_lines (i + 1) rest"

definition Errors_String :: "gin_Error list \<Rightarrow> string" where
  "Errors_String a = (if length a = 0 then '''' else errors_lines 0 a)"

subsection \<open>Package logrus and the trace span\<close>

datatype Level = PanicLevel | FatalLevel | ErrorLevel | WarnLevel | InfoLevel | DebugLevel | TraceLevel

text \<open>
  What reaches the logger for one record: the level, the message and the fields of
  the entry. Whether the logger then writes the record depends on its configured
  level, hooks and formatter, which the package does not set.
\<close>

record log_record =
  rec_level :: Level
  rec_message :: string
  rec_data :: Fields

record Entry =
  Data :: Fields

definition newEntry :: Entry where
  "newEntry = \<lparr>Data = Map.empty\<rparr>"

definition WithFields :: "Entry \<Rightarrow> Fields \<Rightarrow> Entry" where
  "WithFields e fs = \<lparr>Data = Data e ++ fs\<rparr>"

definition WithField :: "Entry \<Rightarrow> string \<Rightarrow> any \<Rightarrow> Entry" where
  "WithField e k v = WithFields e [k \<mapsto> v]"

definition WithContext :: "Entry \<Rightarrow> Entry" where
  "WithContext e = \<lparr>Data = Data e\<rparr>"

section \<open>The world the middlewares run in\<close>

text \<open>
  The mutable state of one request: the gin context, the number of clock readings
  taken so far, the records handed to the logger, and the \<^verbatim>\<open>SetStatus\<close> calls made
  on the request's span.
\<close>

record world =
  ctx :: Context
  tick :: nat
  sink :: "log_record list"
  span_calls :: "(string \<times> string) list"

text \<open>
  What the runtime supplies: \<open>clock n\<close> is the \<open>n\<close>-th reading of the clocks, and
  the goroutine number and the frames are what \<^verbatim>\<open>runtime.Stack\<close> prints.
\<close>

record env =
  clock :: "nat \<Rightarrow> Time"
  goid :: nat
  frames :: string

definition time_Now :: "env \<Rightarrow> world \<Rightarrow> Time \<times> world" where
  "time_Now e w = (clock e (tick w), w\<lparr>tick := tick w + 1\<rparr>)"

text \<open>
  \<^verbatim>\<open>time.Since(start)\<close> for a \<open>start\<close> that has a monotonic reading, as every
  result of \<^verbatim>\<open>time.Now()\<close> has: the monotonic clock is read and the two monotonic
  readings are subtracted.
\<close>

definition time_Since :: "env \<Rightarrow> Time \<Rightarrow> world \<Rightarrow> Duration \<times> world" where
  "time_Since e start w =
     (subMono (mono (clock e (tick w))) (mono start), w\<lparr>tick := tick w + 1\<rparr>)"

definition Log :: "Entry \<Rightarrow> Level \<Rightarrow> string \<Rightarrow> world \<Rightarrow> world" where
  "Log e lvl msg w = w\<lparr>sink := sink w @ [\<lparr>rec_level = lvl, rec_message = msg, rec_data = Data e\<rparr>]\<rparr>"

section \<open>logging.go\<close>

definition UserClaimsKey :: string where
  "UserClaimsKey = ''userClaims''"

text \<open>
  \<^verbatim>\<open>generateLogFields(c, start)\<close>. The latency is taken first; the map literal is
  then evaluated, its last entry reading the clock again; the user id is added when
  the store has well-shaped claims.
\<close>

definition generateLogFields :: "env \<Rightarrow> Time \<Rightarrow> world \<Rightarrow> Fields \<times> world" where
  "generateLogFields e start w =
     (let (latency, w1) = time_Since e start w;
          c = ctx w1;
          (now, w2) = time_Now e w1;
          fields = [
            ''url.domain'' \<mapsto> AString (Host (Request c)),
            ''url.fragment'' \<mapsto> AString (Fragment (Url (Request c))),
            ''url.full'' \<mapsto> AString (String_result (Url (Request c))),
            ''url.original'' \<mapsto> AString (String_result (Url (Request c))),
            ''url.path'' \<mapsto> AString (Path (Url (Request c))),
            ''url.port'' \<mapsto> AString (Port (Url (Request c))),
            ''url.query'' \<mapsto> AString (RawQuery (Url (Request c))),
            ''url.registered_domain'' \<mapsto> AString (Hostname (Url (Request c))),
            ''url.scheme'' \<mapsto> AString (Scheme (Url (Request c))),
            ''http.request.bytes'' \<mapsto> AInt (ContentLength (Request c)),
            ''http.request.method'' \<mapsto> AString (Method (Request c)),
            ''http.request.mime_type'' \<mapsto> AString (ContentType c),
            ''http.request.referrer'' \<mapsto> AString (Referer (Request c)),
            ''http.response.body.bytes'' \<mapsto> AInt (w_size (Writer c)),
            ''http.response.status_code'' \<mapsto> AInt (w_status (Writer c)),
            ''http.version'' \<mapsto> AString (Proto (Request c)),
            ''client.address'' \<mapsto> AString (ClientIP_result c),
            ''client.ip'' \<mapsto> AString (ClientIP_result c),
            ''server.address'' \<mapsto> AString (Host (Request c)),
            ''server.ip'' \<mapsto> AString (Host (Request c)),
            ''user_agent.original'' \<mapsto> AString (UserAgent (Request c)),
            ''event.duration'' \<mapsto> AFloat (Seconds latency),
            ''event.start'' \<mapsto> AString (Format start),
            ''event.end'' \<mapsto> AString (Format now)]
      in (case Keys c UserClaimsKey of
            Some (AMap userMap) \<Rightarrow>
              (case userMap ''UserID'' of
                 Some (AString userID) \<Rightarrow> (fields(''user.id'' \<mapsto> AString userID), w2)
               | _ \<Rightarrow> (fields, w2))
          | _ \<Rightarrow> (fields, w2)))"

text \<open>
  How a call of the rest of the handler chain (\<^verbatim>\<open>c.Next()\<close>) ends: it returns, or
  it panics and unwinds. \<open>Panicked v\<close> carries the value that \<^verbatim>\<open>recover()\<close> yields
  for the panic; a chain is any function on the world with such an outcome.
\<close>

datatype outcome = Returned | Panicked any

type_synonym chain = "world \<Rightarrow> outcome \<times> world"

text \<open>
  \<^verbatim>\<open>GinLogrus(logger)\<close>. A panic of the chain unwinds through the middleware, which
  has no deferred call. The user id is looked up a second time and set again on the
  entry.
\<close>

definition GinLogrus :: "env \<Rightarrow> chain \<Rightarrow> chain" where
  "GinLogrus e Next w =
     (let (start, w1) = time_Now e w
      in case Next w1 of
           (Panicked v, w2) \<Rightarrow> (Panicked v, w2)
         | (Returned, w2) \<Rightarrow>
             (let (fields, w3) = generateLogFields e start w2;
                  c = ctx w3;
                  entry = WithFields newEntry fields;
                  entry' =
                    (case Keys c UserClaimsKey of
                       Some (AMap userMap) \<Rightarrow>
                         (case userMap ''UserID'' of
                            Some (AString userID) \<Rightarrow>
                              WithField (WithContext entry) ''user.id'' (AString userID)
                          | _ \<Rightarrow> entry)
                     | _ \<Rightarrow> entry)
              in if length (Errors c) > 0
                 then (Returned, Log entry' ErrorLevel (''Request failed: '' @ Errors_String (Errors c)) w3)
                 else (Returned, Log entry' InfoLevel ''Request processed successfully'' w3)))"

text \<open>
  \<^verbatim>\<open>recover()\<close> in the deferred function: nil when the chain returned, the panic
  value otherwise.
\<close>

fun recover :: "outcome \<Rightarrow> any" where
  "recover Returned = ANil"
| "recover (Panicked v) = v"

text \<open>
  \<^verbatim>\<open>runtime.Stack(buf, false)\<close> writes the trace of the calling goroutine into
  \<^verbatim>\<open>buf\<close>, as much of it as fits, and returns the number of bytes written. The
  trace starts with the goroutine's header line.
\<close>

definition stack_trace :: "env \<Rightarrow> string" where
  "stack_trace e = ''goroutine '' @ utod (goid e) @ '' [running]:'' @ [newline] @ frames e"

definition make_bytes :: "nat \<Rightarrow> string" where
  "make_bytes n = replicate n (CHR 0x00)"

definition runtime_Stack :: "env \<Rightarrow> string \<Rightarrow> string \<times> nat" where
  "runtime_Stack e buf =
     (let n = min (length buf) (length (stack_trace e))
      in (take n (stack_trace e) @ drop n buf, n))"

text \<open>
  \<^verbatim>\<open>RecoveryWithLoggerMiddleware(logger)\<close>. The deferred function runs when
  \<^verbatim>\<open>c.Next()\<close> has returned or panicked; after it the middleware returns normally.
\<close>

definition RecoveryWithLoggerMiddleware :: "env \<Rightarrow> chain \<Rightarrow> chain" where
  "RecoveryWithLoggerMiddleware e Next w =
     (let (out, w1) = Next w;
          err = recover out
      in if err \<noteq> ANil
         then
           (let (start, w2) = time_Now e w1;
                stack = make_bytes 2048;
                (stack', n) = runtime_Stack e stack;
                stack'' = take n stack';
                (fields, w3) = generateLogFields e start w2;
                entry = WithFields newEntry fields;
                w4 = Log (WithFields entry [''error.message'' \<mapsto> err,
                                            ''error.stack_trace'' \<mapsto> AString stack''])
                       ErrorLevel ''A panic occurred'' w3;
                w5 = (if span_valid (Request (ctx w4))
                      then w4\<lparr>span_calls := span_calls w4 @ [(''Error'', ''panic occurred'')]\<rparr>
                      else w4)
            in (Returned, w5\<lparr>ctx := AbortWithStatus 500 (ctx w5)\<rparr>))
         else (Returned, w1))"

section \<open>Example exchanges\<close>

text \<open>
  A clock in a zone one hour east of UTC that advances a quarter of a second between
  readings, starting at 2024-01-01 12:00:00 UTC.
\<close>

definition ex_env :: env where
  "ex_env = \<lparr>clock = (\<lambda>n. \<lparr>wall = 1704110400000000000 + 250000000 * int n,
                                mono = 250000000 * int n, zone = 3600\<rparr>),
             goid = 18, frames = ''main.handler(...)''\<rparr>"

text \<open>The request \<^verbatim>\<open>GET https://api.example.com/v1/items?x=1\<close>, answered with
  status 200 and 512 bytes.\<close>

definition ex_request :: Request where
  "ex_request =
     \<lparr>Method = ''GET'',
      Url = \<lparr>Scheme = ''https'', URL_Host = ''api.example.com'', Path = ''/v1/items'',
             RawQuery = ''x=1'', Fragment = [],
             String_result = ''https://api.example.com/v1/items?x=1''\<rparr>,
      Proto = ''HTTP/1.1'',
      Headers = [''User-Agent'' \<mapsto> [''curl/8.0'']],
      ContentLength = 0,
      Host = ''api.example.com'',
      span_valid = False\<rparr>"

definition ex_world :: world where
  "ex_world =
     \<lparr>ctx = \<lparr>Request = ex_request, Writer = \<lparr>w_size = 512, w_status = 200\<rparr>,
             Keys = Map.empty, Errors = [], aborted = False,
             ClientIP_result = ''203.0.113.7''\<rparr>,
      tick = 0, sink = [], span_calls = []\<rparr>"

text \<open>The same exchange with identity claims in the store.\<close>

definition ex_world_id :: world where
  "ex_world_id =
     ex_world\<lparr>ctx := (ctx ex_world)
       \<lparr>Keys := [''userClaims'' \<mapsto> AMap [''UserID'' \<mapsto> AString ''abc-123'']]\<rparr>\<rparr>"

text \<open>The same exchange with the claims stored as a typed struct, and with a map whose
  \<^verbatim>\<open>UserID\<close> entry is not a string.\<close>

definition ex_world_struct :: world where
  "ex_world_struct =
     ex_world\<lparr>ctx := (ctx ex_world)
       \<lparr>Keys := [''userClaims'' \<mapsto>
                  AUserContext \<lparr>Email = ''a@example.com'', UserID = ''0123456789abcdef'',
                                OrganisationID = ''0123456789abcdef'',
                                TenantID = ''0123456789abcdef''\<rparr>]\<rparr>\<rparr>"

definition ex_world_int :: world where
  "ex_world_int =
     ex_world\<lparr>ctx := (ctx ex_world)
       \<lparr>Keys := [''userClaims'' \<mapsto> AMap [''UserID'' \<mapsto> AInt 7]]\<rparr>\<rparr>"

text \<open>
  A request \<^verbatim>\<open>GET /\<close> without headers, as the server parses it (only the path of
  the URL is set), to which nothing has been written yet.
\<close>

definition bare_world :: world where
  "bare_world =
     \<lparr>ctx = \<lparr>Request =
               \<lparr>Method = ''GET'',
                Url = \<lparr>Scheme = [], URL_Host = [], Path = ''/'', RawQuery = [],
                       Fragment = [], String_result = ''/''\<rparr>,
                Proto = ''HTTP/1.1'', Headers = Map.empty, ContentLength = 0,
                Host = ''localhost:8080'', span_valid = True\<rparr>,
             Writer = \<lparr>w_size = noWritten, w_status = 200\<rparr>,
             Keys = Map.empty, Errors = [], aborted = False,
             ClientIP_result = ''127.0.0.1''\<rparr>,
      tick = 0, sink = [], span_calls = []\<rparr>"

text \<open>Handler chains: one that returns, one that records two errors and returns, one
  that panics, and one that writes five bytes and then panics with the empty string.\<close>

definition ok_chain :: chain where
  "ok_chain w = (Returned, w)"

definition err_chain :: chain where
  "err_chain w =
     (Returned, w\<lparr>ctx := (ctx w)\<lparr>Errors := [\<lparr>Err = ''boom'', Meta = None\<rparr>,
                                            \<lparr>Err = ''bad id'', Meta = Some ''42''\<rparr>]\<rparr>\<rparr>)"

definition panic_chain :: chain where
  "panic_chain w = (Panicked (AString ''division by zero''), w)"

definition write_panic_chain :: chain where
  "write_panic_chain w =
     (Panicked (AString []), w\<lparr>ctx := (ctx w)\<lparr>Writer := \<lparr>w_size = 5, w_status = 200\<rparr>\<rparr>\<rparr>)"

text \<open>A chain that runs for forty clock readings and then panics with an error value.\<close>

definition slow_panic_chain :: chain where
  "slow_panic_chain w = (Panicked (AError ''boom''), w\<lparr>tick := tick w + 40\<rparr>)"

section \<open>Field extraction\<close>

lemma generateLogFields_world:
  "snd (generateLogFields e start w) = w\<lparr>tick := tick w + 2\<rparr>"
  by (simp add: generateLogFields_def time_Since_def time_Now_def Let_def
      split: option.splits any.splits)

lemma generateLogFields_user_id:
  "fst (generateLogFields e start w) ''user.id'' =
     (case Keys (ctx w) UserClaimsKey of
        Some (AMap userMap) \<Rightarrow>
          (case userMap ''UserID'' of Some (AString userID) \<Rightarrow> Some (AString userID) | _ \<Rightarrow> None)
      | _ \<Rightarrow> None)"
  by (simp add: generateLogFields_def time_Since_def time_Now_def Let_def
      split: option.splits any.splits)

lemma generateLogFields_lookup:
  fixes e start w
  defines "F \<equiv> fst (generateLogFields e start w)"
      and "c \<equiv> ctx w"
  shows "F ''url.domain'' = Some (AString (Host (Request c)))"
    and "F ''url.fragment'' = Some (AString (Fragment (Url (Request c))))"
    and "F ''url.full'' = Some (AString (String_result (Url (Request c))))"
    and "F ''url.original'' = Some (AString (String_result (Url (Request c))))"
    and "F ''url.path'' = Some (AString (Path (Url (Request c))))"
    and "F ''url.port'' = Some (AString (Port (Url (Request c))))"
    and "F ''url.query'' = Some (AString (RawQuery (Url (Request c))))"
    and "F ''url.registered_domain'' = Some (AString (Hostname (Url (Request c))))"
    and "F ''url.scheme'' = Some (AString (Scheme (Url (Request c))))"
    and "F ''http.request.bytes'' = Some (AInt (ContentLength (Request c)))"
    and "F ''http.request.method'' = Some (AString (Method (Request c)))"
    and "F ''http.request.mime_type'' = Some (AString (ContentType c))"
    and "F ''http.request.referrer'' = Some (AString (Referer (Request c)))"
    and "F ''http.response.body.bytes'' = Some (AInt (w_size (Writer c)))"
    and "F ''http.response.status_code'' = Some (AInt (w_status (Writer c)))"
    and "F ''http.version'' = Some (AString (Proto (Request c)))"
    and "F ''client.address'' = Some (AString (ClientIP_result c))"
    and "F ''client.ip'' = Some (AString (ClientIP_result c))"
    and "F ''server.address'' = Some (AString (Host (Request c)))"
    and "F ''server.ip'' = Some (AString (Host (Request c)))"
    and "F ''user_agent.original'' = Some (AString (UserAgent (Request c)))"
    and "F ''event.duration'' =
           Some (AFloat (Seconds (subMono (mono (clock e (tick w))) (mono start))))"
    and "F ''event.start'' = Some (AString (Format start))"
    and "F ''event.end'' = Some (AString (Format (clock e (tick w + 1))))"
  unfolding F_def c_def
  by (simp_all add: generateLogFields_def time_Since_def time_Now_def Let_def
      split: option.splits any.splits)


text \<open>
  C3: the field set has the key \<^verbatim>\<open>user.id\<close> if and only if the store holds, under
  \<^verbatim>\<open>"userClaims"\<close>, a \<^verbatim>\<open>map[string]interface{}\<close> with a string under \<^verbatim>\<open>"UserID"\<close>,
  and then \<^verbatim>\<open>user.id\<close> is that string. Every other shape gives no \<^verbatim>\<open>user.id\<close>; the
  routine has no error result.
\<close>

theorem user_id_iff_claims:
  "((\<exists>v. fst (generateLogFields e start w) ''user.id'' = Some v) \<longleftrightarrow>
      (\<exists>m s. Keys (ctx w) ''userClaims'' = Some (AMap m) \<and> m ''UserID'' = Some (AString s)))
   \<and> (\<forall>m s. Keys (ctx w) ''userClaims'' = Some (AMap m) \<and> m ''UserID'' = Some (AString s)
          \<longrightarrow> fst (generateLogFields e start w) ''user.id'' = Some (AString s))"
  unfolding generateLogFields_user_id UserClaimsKey_def
  by (auto split: option.splits any.splits)

theorem user_id_iff_claims_witness:
  "fst (generateLogFields ex_env (clock ex_env 0) ex_world_id) ''user.id''
     = Some (AString ''abc-123'')
   \<and> fst (generateLogFields ex_env (clock ex_env 0) ex_world) ''user.id'' = None
   \<and> fst (generateLogFields ex_env (clock ex_env 0) ex_world_struct) ''user.id'' = None
   \<and> fst (generateLogFields ex_env (clock ex_env 0) ex_world_int) ''user.id'' = None"
  using user_id_iff_claims [of ex_env "clock ex_env 0" ex_world_id]
        user_id_iff_claims [of ex_env "clock ex_env 0" ex_world]
        user_id_iff_claims [of ex_env "clock ex_env 0" ex_world_struct]
        user_id_iff_claims [of ex_env "clock ex_env 0" ex_world_int]
  by (simp add: ex_world_id_def ex_world_struct_def ex_world_int_def ex_world_def)

text \<open>
  C10: the keys of the returned map are exactly the 24 fixed attribute names, and
  \<^verbatim>\<open>user.id\<close> besides exactly when well-shaped identity claims are in the store.
\<close>

theorem generateLogFields_keys:
  "dom (fst (generateLogFields e start w)) =
     {''url.domain'', ''url.fragment'', ''url.full'', ''url.original'', ''url.path'',
      ''url.port'', ''url.query'', ''url.registered_domain'', ''url.scheme'',
      ''http.request.bytes'', ''http.request.method'', ''http.request.mime_type'',
      ''http.request.referrer'', ''http.response.body.bytes'', ''http.response.status_code'',
      ''http.version'', ''client.address'', ''client.ip'', ''server.address'', ''server.ip'',
      ''user_agent.original'', ''event.duration'', ''event.start'', ''event.end''}
     \<union> (if (\<exists>m s. Keys (ctx w) ''userClaims'' = Some (AMap m) \<and> m ''UserID'' = Some (AString s))
        then {''user.id''} else {})"
  apply (simp add: generateLogFields_def time_Since_def time_Now_def Let_def UserClaimsKey_def
      split: option.splits any.splits)
  apply auto
  done

theorem generateLogFields_keys_witness:
  "''user.id'' \<in> dom (fst (generateLogFields ex_env (clock ex_env 0) ex_world_id))
   \<and> ''user.id'' \<notin> dom (fst (generateLogFields ex_env (clock ex_env 0) ex_world))
   \<and> ''event.end'' \<in> dom (fst (generateLogFields ex_env (clock ex_env 0) ex_world))"
  using generateLogFields_keys [of ex_env "clock ex_env 0" ex_world_id]
        generateLogFields_keys [of ex_env "clock ex_env 0" ex_world]
  by (simp add: ex_world_id_def ex_world_def)


section \<open>The recovery middleware\<close>

lemma runtime_Stack_snapshot:
  "take (snd (runtime_Stack e (make_bytes 2048))) (fst (runtime_Stack e (make_bytes 2048)))
     = take 2048 (stack_trace e)"
  by (simp add: runtime_Stack_def make_bytes_def Let_def min_def)

lemma Recovery_panicked:
  assumes "Next w = (Panicked v, w1)" and "v \<noteq> ANil"
  shows "RecoveryWithLoggerMiddleware e Next w =
     (Returned,
      w1\<lparr>tick := tick w1 + 3,
         sink := sink w1 @
           [\<lparr>rec_level = ErrorLevel, rec_message = ''A panic occurred'',
             rec_data = fst (generateLogFields e (clock e (tick w1)) (w1\<lparr>tick := tick w1 + 1\<rparr>))
                        ++ [''error.message'' \<mapsto> v,
                            ''error.stack_trace'' \<mapsto> AString (take 2048 (stack_trace e))]\<rparr>],
         span_calls := span_calls w1 @
           (if span_valid (Request (ctx w1)) then [(''Error'', ''panic occurred'')] else []),
         ctx := AbortWithStatus 500 (ctx w1)\<rparr>)"
  using assms
  by (simp add: RecoveryWithLoggerMiddleware_def Let_def split_def time_Now_def
      generateLogFields_world runtime_Stack_snapshot Log_def WithFields_def newEntry_def)

lemma stack_trace_nonempty: "stack_trace e \<noteq> []"
  by (simp add: stack_trace_def)

lemma AbortWithStatus_unwritten:
  "\<not> Written (Writer c) \<Longrightarrow>
     Writer (AbortWithStatus 500 c) = \<lparr>w_size = 0, w_status = 500\<rparr>"
  by (simp add: AbortWithStatus_def WriteHeader_def WriteHeaderNow_def Written_def Let_def)

lemma AbortWithStatus_written:
  "Written (Writer c) \<Longrightarrow> w_size (Writer (AbortWithStatus 500 c)) = w_size (Writer c)"
  by (simp add: AbortWithStatus_def WriteHeader_def WriteHeaderNow_def Written_def Let_def)

text \<open>
  C9: when the wrapped chain returns without a panic, the recovery middleware does
  nothing: its result is the outcome and the world the chain left, so no record is
  logged and the response status and size are unchanged.
\<close>

theorem Recovery_no_fault:
  "Next w = (Returned, w1) \<Longrightarrow> RecoveryWithLoggerMiddleware e Next w = (Returned, w1)"
  by (simp add: RecoveryWithLoggerMiddleware_def Let_def)

theorem Recovery_no_fault_witness:
  "RecoveryWithLoggerMiddleware ex_env ok_chain ex_world = (Returned, ex_world)"
  using Recovery_no_fault [of ok_chain ex_world ex_world ex_env]
  by (simp add: ok_chain_def)

text \<open>
  C1, as the code has it: when the wrapped chain panics with a value that is not nil,
  the recovery middleware hands the logger exactly one record, at error level, whose
  fields hold the panic value itself under \<^verbatim>\<open>error.message\<close> and a non-empty stack
  snapshot under \<^verbatim>\<open>error.stack_trace\<close>, and it returns normally. It writes no body of
  its own: if nothing had been written to the response, the status becomes 500 and the
  size 0; if the chain had already written, the bytes written stay as they are.
\<close>

theorem Recovery_fault_contained:
  assumes "Next w = (Panicked v, w1)" and "v \<noteq> ANil"
  shows "\<exists>r w'. RecoveryWithLoggerMiddleware e Next w = (Returned, w')
           \<and> sink w' = sink w1 @ [r]
           \<and> rec_level r = ErrorLevel
           \<and> rec_data r ''error.message'' = Some v
           \<and> (\<exists>s. rec_data r ''error.stack_trace'' = Some (AString s) \<and> s \<noteq> [])
           \<and> (\<not> Written (Writer (ctx w1)) \<longrightarrow>
                 w_status (Writer (ctx w')) = 500 \<and> w_size (Writer (ctx w')) = 0)
           \<and> (Written (Writer (ctx w1)) \<longrightarrow>
                 w_size (Writer (ctx w')) = w_size (Writer (ctx w1)))"
  unfolding Recovery_panicked [where Next=Next and w=w and e=e, OF assms]
  by (simp add: stack_trace_nonempty AbortWithStatus_unwritten AbortWithStatus_written)

theorem Recovery_fault_contained_witness:
  "\<exists>r w'. RecoveryWithLoggerMiddleware ex_env panic_chain bare_world = (Returned, w')
           \<and> sink w' = [r]
           \<and> rec_level r = ErrorLevel
           \<and> rec_data r ''error.message'' = Some (AString ''division by zero'')
           \<and> (\<exists>s. rec_data r ''error.stack_trace'' = Some (AString s) \<and> s \<noteq> [])
           \<and> w_status (Writer (ctx w')) = 500 \<and> w_size (Writer (ctx w')) = 0"
proof -
  have chain: "panic_chain bare_world = (Panicked (AString ''division by zero''), bare_world)"
    by (simp add: panic_chain_def)
  have payload: "AString ''division by zero'' \<noteq> ANil"
    by simp
  have fresh: "\<not> Written (Writer (ctx bare_world))" "sink bare_world = []"
    by (simp_all add: bare_world_def Written_def)
  show ?thesis
    using Recovery_fault_contained [where Next=panic_chain and w=bare_world and e=ex_env, OF chain payload] fresh
    by auto
qed

text \<open>
  The claim C1 as stated fails for a handler that writes five bytes and then calls
  \<^verbatim>\<open>panic("")\<close>: the record's \<^verbatim>\<open>error.message\<close> is the empty string, and the response
  keeps its five bytes.
\<close>

theorem Recovery_claim_counterexample:
  "rec_data (last (sink (snd (RecoveryWithLoggerMiddleware ex_env write_panic_chain bare_world))))
      ''error.message'' = Some (AString [])
   \<and> w_size (Writer (ctx (snd (RecoveryWithLoggerMiddleware ex_env write_panic_chain bare_world)))) = 5"
proof -
  have chain: "write_panic_chain bare_world =
        (Panicked (AString []),
         bare_world\<lparr>ctx := (ctx bare_world)\<lparr>Writer := \<lparr>w_size = 5, w_status = 200\<rparr>\<rparr>\<rparr>)"
    by (simp add: write_panic_chain_def)
  have payload: "AString [] \<noteq> ANil"
    by simp
  show ?thesis
    unfolding Recovery_panicked [where Next=write_panic_chain and w=bare_world and e=ex_env, OF chain payload]
    by (simp add: AbortWithStatus_written Written_def noWritten_def)
qed

text \<open>
  C8: the stack snapshot logged on the panic path is what \<^verbatim>\<open>runtime.Stack\<close> wrote into
  a buffer of 2048 bytes, cut to the count it returned: the first 2048 bytes of the
  trace at most, whatever the panic value and however long the trace.
\<close>

theorem stack_snapshot_bounded:
  assumes "Next w = (Panicked v, w1)" and "v \<noteq> ANil"
  shows "\<exists>s. rec_data (last (sink (snd (RecoveryWithLoggerMiddleware e Next w))))
                ''error.stack_trace'' = Some (AString s)
             \<and> length s \<le> 2048 \<and> s = take 2048 (stack_trace e)"
  unfolding Recovery_panicked [where Next=Next and w=w and e=e, OF assms]
  by simp

theorem stack_snapshot_bounded_witness:
  "\<exists>s. rec_data (last (sink (snd (RecoveryWithLoggerMiddleware
                (ex_env\<lparr>frames := replicate 5000 (CHR ''x'')\<rparr>) panic_chain ex_world))))
                ''error.stack_trace'' = Some (AString s)
       \<and> length s \<le> 2048"
proof -
  have chain: "panic_chain ex_world = (Panicked (AString ''division by zero''), ex_world)"
    by (simp add: panic_chain_def)
  have payload: "AString ''division by zero'' \<noteq> ANil"
    by simp
  show ?thesis
    using stack_snapshot_bounded [where Next=panic_chain and w=ex_world
        and e="ex_env\<lparr>frames := replicate 5000 (CHR ''x'')\<rparr>", OF chain payload]
    by blast
qed

text \<open>
  C7: on the panic path the start time given to the field extraction is the clock
  reading taken in the deferred function, after the chain has unwound: the logged
  fields are those of \<^verbatim>\<open>generateLogFields\<close> called with that reading, so
  \<^verbatim>\<open>event.start\<close> is that reading and \<^verbatim>\<open>event.duration\<close> is the time from it to the
  next reading of the monotonic clock. No reading from before the catch enters.
\<close>

theorem Recovery_start_at_catch:
  assumes "Next w = (Panicked v, w1)" and "v \<noteq> ANil"
  shows "\<exists>r. sink (snd (RecoveryWithLoggerMiddleware e Next w)) = sink w1 @ [r]
           \<and> rec_data r =
               fst (generateLogFields e (clock e (tick w1)) (w1\<lparr>tick := tick w1 + 1\<rparr>))
               ++ [''error.message'' \<mapsto> v,
                   ''error.stack_trace'' \<mapsto> AString (take 2048 (stack_trace e))]
           \<and> rec_data r ''event.start'' = Some (AString (Format (clock e (tick w1))))
           \<and> rec_data r ''event.duration'' =
               Some (AFloat (Seconds (subMono (mono (clock e (tick w1 + 1)))
                                              (mono (clock e (tick w1))))))"
  unfolding Recovery_panicked [where Next=Next and w=w and e=e, OF assms]
  by (simp add: generateLogFields_lookup map_add_def)


lemma Seconds_eq: "Seconds d = real_of_int d / 1000000000"
proof -
  have "d sdiv Second * Second + d smod Second = d"
    by (rule sdiv_mult_smod_eq)
  then have "real_of_int (d sdiv Second) * 1000000000 + real_of_int (d smod Second) = real_of_int d"
    unfolding Second_def by (metis of_int_add of_int_mult of_int_numeral)
  then show ?thesis
    by (simp add: Seconds_def Let_def field_simps)
qed

theorem Recovery_start_at_catch_witness:
  "\<exists>r. sink (snd (RecoveryWithLoggerMiddleware ex_env slow_panic_chain ex_world)) = [r]
        \<and> rec_data r ''event.start'' = Some (AString (Format (clock ex_env 40)))
        \<and> rec_data r ''event.duration'' = Some (AFloat (1 / 4))"
proof -
  have chain: "slow_panic_chain ex_world = (Panicked (AError ''boom''), ex_world\<lparr>tick := 40\<rparr>)"
    by (simp add: slow_panic_chain_def ex_world_def)
  have payload: "AError ''boom'' \<noteq> ANil"
    by simp
  have dur: "Seconds (subMono (mono (clock ex_env 41)) (mono (clock ex_env 40))) = 1 / 4"
    by (simp add: Seconds_eq subMono_def ex_env_def maxDuration_def minDuration_def)
  show ?thesis
    using Recovery_start_at_catch [where Next=slow_panic_chain and w=ex_world and e=ex_env,
        OF chain payload] dur
    by (auto simp: ex_world_def)
qed

section \<open>The logging middleware\<close>


lemma user_id_again:
  assumes "Keys (ctx w) UserClaimsKey = Some (AMap m)" and "m ''UserID'' = Some (AString s)"
  shows "(fst (generateLogFields e start w))(''user.id'' \<mapsto> AString s)
           = fst (generateLogFields e start w)"
  by (rule fun_upd_idem) (simp add: generateLogFields_user_id assms)

lemma GinLogrus_returned:
  assumes "Next (w\<lparr>tick := tick w + 1\<rparr>) = (Returned, w2)"
  shows "GinLogrus e Next w =
     (Returned,
      w2\<lparr>tick := tick w2 + 2,
         sink := sink w2 @
           [\<lparr>rec_level = (if Errors (ctx w2) \<noteq> [] then ErrorLevel else InfoLevel),
             rec_message = (if Errors (ctx w2) \<noteq> []
                            then ''Request failed: '' @ Errors_String (Errors (ctx w2))
                            else ''Request processed successfully''),
             rec_data = fst (generateLogFields e (clock e (tick w)) w2)\<rparr>]\<rparr>)"
  using assms
  by (auto simp add: GinLogrus_def time_Now_def Let_def split_def generateLogFields_world
      Log_def WithFields_def WithField_def WithContext_def newEntry_def user_id_again
      split: option.splits any.splits)

lemma sublist_errors_lines:
  "x \<in> set a \<Longrightarrow> sublist (Err x) (errors_lines i a)"
proof (induction a arbitrary: i)
  case Nil
  then show ?case by simp
next
  case (Cons msg rest)
  show ?case
  proof (cases "x = msg")
    case True
    have "sublist (Err msg)
            ((''Error #'' @ appendInt (int (i + 1)) 2 @ '': '') @ Err msg @
             ([newline] @ (case Meta msg of None \<Rightarrow> [] | Some m \<Rightarrow> ''     Meta: '' @ m @ [newline])
              @ errors_lines (i + 1) rest))"
      by (rule sublist_appendI)
    with True show ?thesis by simp
  next
    case False
    with Cons.prems have "x \<in> set rest" by simp
    then have "sublist (Err x) (errors_lines (i + 1) rest)"
      by (rule Cons.IH)
    then obtain ps ss where "errors_lines (i + 1) rest = ps @ Err x @ ss"
      by (auto simp: sublist_def)
    then have "errors_lines i (msg # rest) =
        ((''Error #'' @ appendInt (int (i + 1)) 2 @ '': '' @ Err msg @ [newline]
          @ (case Meta msg of None \<Rightarrow> [] | Some m \<Rightarrow> ''     Meta: '' @ m @ [newline])) @ ps)
        @ Err x @ ss"
      by simp
    then show ?thesis
      unfolding sublist_def by blast
  qed
qed



lemma sublist_Errors_message:
  assumes "x \<in> set a"
  shows "sublist (Err x) (''Request failed: '' @ Errors_String a)"
proof -
  from assms have "a \<noteq> []" by auto
  then have "Errors_String a = errors_lines 0 a"
    by (simp add: Errors_String_def)
  moreover have "sublist (Err x) (errors_lines 0 a)"
    using assms by (rule sublist_errors_lines)
  then obtain ps ss where "errors_lines 0 a = ps @ Err x @ ss"
    by (auto simp: sublist_def)
  ultimately have "''Request failed: '' @ Errors_String a = (''Request failed: '' @ ps) @ Err x @ ss"
    by simp
  then show ?thesis
    unfolding sublist_def by blast
qed


text \<open>
  C2, as the code has it: when the chain returns without a panic, the logging
  middleware hands the logger exactly one record, carrying the extracted field set,
  and leaves the context as the chain left it. If errors were recorded, the record is
  at error level and its message is \<^verbatim>\<open>Request failed: \<close> followed by the rendering of
  all recorded errors, which contains the text of each of them; otherwise it is at
  info level with the message \<^verbatim>\<open>Request processed successfully\<close>.
\<close>

theorem GinLogrus_one_record:
  assumes "Next (snd (time_Now e w)) = (Returned, w2)"
  shows "\<exists>r w'. GinLogrus e Next w = (Returned, w')
           \<and> sink w' = sink w2 @ [r]
           \<and> ctx w' = ctx w2
           \<and> rec_data r = fst (generateLogFields e (clock e (tick w)) w2)
           \<and> (Errors (ctx w2) \<noteq> [] \<longrightarrow>
                 rec_level r = ErrorLevel
                 \<and> rec_message r = ''Request failed: '' @ Errors_String (Errors (ctx w2))
                 \<and> (\<forall>x \<in> set (Errors (ctx w2)). sublist (Err x) (rec_message r)))
           \<and> (Errors (ctx w2) = [] \<longrightarrow>
                 rec_level r = InfoLevel
                 \<and> rec_message r = ''Request processed successfully'')"
proof -
  define r where "r =
     \<lparr>rec_level = (if Errors (ctx w2) \<noteq> [] then ErrorLevel else InfoLevel),
      rec_message = (if Errors (ctx w2) \<noteq> []
                     then ''Request failed: '' @ Errors_String (Errors (ctx w2))
                     else ''Request processed successfully''),
      rec_data = fst (generateLogFields e (clock e (tick w)) w2)\<rparr>"
  define w' where "w' = w2\<lparr>tick := tick w2 + 2, sink := sink w2 @ [r]\<rparr>"
  from assms have step: "Next (w\<lparr>tick := tick w + 1\<rparr>) = (Returned, w2)"
    by (simp add: time_Now_def)
  have run: "GinLogrus e Next w = (Returned, w')"
    unfolding w'_def r_def by (rule GinLogrus_returned [where Next=Next and w=w and e=e, OF step])
  have world: "sink w' = sink w2 @ [r]" "ctx w' = ctx w2"
    by (simp_all add: w'_def)
  have data: "rec_data r = fst (generateLogFields e (clock e (tick w)) w2)"
    by (simp add: r_def)
  have failed: "rec_level r = ErrorLevel"
      "rec_message r = ''Request failed: '' @ Errors_String (Errors (ctx w2))"
      "\<forall>x \<in> set (Errors (ctx w2)). sublist (Err x) (rec_message r)"
    if "Errors (ctx w2) \<noteq> []"
  proof -
    show "rec_level r = ErrorLevel"
      using that by (simp add: r_def)
    show msg: "rec_message r = ''Request failed: '' @ Errors_String (Errors (ctx w2))"
      using that by (simp add: r_def)
    show "\<forall>x \<in> set (Errors (ctx w2)). sublist (Err x) (rec_message r)"
      unfolding msg by (intro ballI sublist_Errors_message)
  qed
  have succeeded: "rec_level r = InfoLevel"
      "rec_message r = ''Request processed successfully''"
    if "Errors (ctx w2) = []"
    using that by (simp_all add: r_def)
  from run world data failed succeeded show ?thesis
    by blast
qed


theorem GinLogrus_one_record_witness:
  "(\<exists>r w'. GinLogrus ex_env ok_chain ex_world = (Returned, w')
        \<and> sink w' = [r] \<and> rec_level r = InfoLevel
        \<and> rec_message r = ''Request processed successfully'')
   \<and> (\<exists>r w'. GinLogrus ex_env err_chain ex_world = (Returned, w')
        \<and> sink w' = [r] \<and> rec_level r = ErrorLevel
        \<and> sublist ''boom'' (rec_message r) \<and> sublist ''bad id'' (rec_message r))"
proof -
  define w_ok where "w_ok = snd (time_Now ex_env ex_world)"
  define w_err where "w_err = snd (err_chain (snd (time_Now ex_env ex_world)))"
  have ok: "ok_chain (snd (time_Now ex_env ex_world)) = (Returned, w_ok)"
    by (simp add: ok_chain_def w_ok_def)
  have err: "err_chain (snd (time_Now ex_env ex_world)) = (Returned, w_err)"
    by (simp add: err_chain_def w_err_def)
  have ok_facts: "sink w_ok = []" "Errors (ctx w_ok) = []"
    by (simp_all add: w_ok_def time_Now_def ex_world_def)
  have err_facts: "sink w_err = []"
      "Errors (ctx w_err) = [\<lparr>Err = ''boom'', Meta = None\<rparr>, \<lparr>Err = ''bad id'', Meta = Some ''42''\<rparr>]"
    by (simp_all add: w_err_def err_chain_def time_Now_def ex_world_def)
  have "\<exists>r w'. GinLogrus ex_env ok_chain ex_world = (Returned, w')
        \<and> sink w' = [r] \<and> rec_level r = InfoLevel
        \<and> rec_message r = ''Request processed successfully''"
    using GinLogrus_one_record [where Next=ok_chain and w=ex_world and e=ex_env, OF ok]
    unfolding ok_facts by auto
  moreover have "\<exists>r w'. GinLogrus ex_env err_chain ex_world = (Returned, w')
        \<and> sink w' = [r] \<and> rec_level r = ErrorLevel
        \<and> sublist ''boom'' (rec_message r) \<and> sublist ''bad id'' (rec_message r)"
    using GinLogrus_one_record [where Next=err_chain and w=ex_world and e=ex_env, OF err]
    unfolding err_facts by auto
  ultimately show ?thesis by blast
qed

text \<open>
  The claim C2 as stated names the message \<^verbatim>\<open>request processed successfully\<close>; the
  record of a request without errors has the message with a capital letter.
\<close>

theorem GinLogrus_message_counterexample:
  "rec_message (last (sink (snd (GinLogrus ex_env ok_chain ex_world))))
      = ''Request processed successfully''
   \<and> rec_message (last (sink (snd (GinLogrus ex_env ok_chain ex_world))))
      \<noteq> ''request processed successfully''"
proof -
  have ok: "ok_chain (ex_world\<lparr>tick := tick ex_world + 1\<rparr>)
              = (Returned, ex_world\<lparr>tick := tick ex_world + 1\<rparr>)"
    by (simp add: ok_chain_def)
  show ?thesis
    unfolding GinLogrus_returned [where Next=ok_chain and w=ex_world and e=ex_env, OF ok]
    by (simp add: ex_world_def)
qed

section \<open>Required attributes and timestamps\<close>





lemma Format_ex_clock:
  "Format (clock ex_env 0) = ''2024-01-01T13:00:00.000Z''"
  "Format (clock ex_env 1) = ''2024-01-01T13:00:00.250Z''"
  "Format (UTC (clock ex_env 0)) = ''2024-01-01T12:00:00.000Z''"
  "Format (UTC (clock ex_env 1)) = ''2024-01-01T12:00:00.250Z''"
  by code_simp+

text \<open>
  C5: \<^verbatim>\<open>event.start\<close> and \<^verbatim>\<open>event.end\<close> are meant to be UTC timestamps with
  millisecond resolution and the suffix \<^verbatim>\<open>Z\<close>. The code formats the times in the
  location they were captured in and appends a literal \<^verbatim>\<open>Z\<close>: for a request at
  12:00:00 UTC on a server one hour east of UTC the attributes read 13:00:00, where
  the UTC rendering of the same instants reads 12:00:00.
\<close>

theorem event_timestamps_local_zone:
  "fst (generateLogFields ex_env (clock ex_env 0) ex_world) ''event.start''
      = Some (AString ''2024-01-01T13:00:00.000Z'')
   \<and> fst (generateLogFields ex_env (clock ex_env 0) ex_world) ''event.end''
      = Some (AString ''2024-01-01T13:00:00.250Z'')
   \<and> Format (UTC (clock ex_env 0)) = ''2024-01-01T12:00:00.000Z''
   \<and> Format (UTC (clock ex_env 1)) = ''2024-01-01T12:00:00.250Z''"
proof -
  have "tick ex_world + 1 = 1"
    by (simp add: ex_world_def)
  then show ?thesis
    by (simp only: generateLogFields_lookup Format_ex_clock simp_thms)
qed


end
